theory Spec2Isabelle
  imports Complex_Main
begin

section \<open>The temperature monitor of eel2.py\<close>

text \<open>
  The module keeps its state in globals (\<open>device_active\<close>, \<open>sensor_data\<close>,
  \<open>cycle_data\<close>, \<open>cycle_count\<close>) and acts on the world through the serial port, the
  clock and two files. The model passes one record around that holds the globals and the
  observable part of the world: the clock \<open>now\<close> (what \<open>time.time()\<close> returns, in seconds
  since the program started), the commands written to the serial port, the arguments of
  every \<open>time.sleep\<close> call and the rows appended to the CSV file.

  Python floats are modelled as real numbers: arithmetic is exact and there is no NaN.
  Appending to the CSV file is taken to succeed. The log messages of the scheduler are
  left out: they do not influence its control flow. The retention sweep is modelled with
  the one effect of its messages on the files it checks.
\<close>

subsection \<open>Data\<close>

datatype py_error = ValueError | IndexError | OSError

datatype command = THRESHOLD_EXCEEDED | RESET_DEVICE

text \<open>One entry of \<open>cycle_data\<close>: the dictionary built in \<open>data_collection_cycle\<close>.\<close>

record cycle_record =
  cycle :: int
  avg_temp :: real
  predicted_temp :: real

text \<open>
  A row of the CSV file: the one \<open>gather_data\<close> writes (cycle, average, breach flag) and
  the one \<open>data_collection_cycle\<close> writes (cycle, average, prediction).
\<close>

datatype csv_row = WindowRow int real bool | CycleRow int real real

record state =
  device_active :: bool
  sensor_data :: "real list"
  cycle_data :: "cycle_record list"
  cycle_count :: int
  now :: real
  sent :: "command list"
  slept :: "real list"
  csv :: "csv_row list"

definition TEMP_THRESHOLD :: real where
  "TEMP_THRESHOLD = 35"

definition initial_state :: state where
  "initial_state =
     \<lparr>device_active = False, sensor_data = [], cycle_data = [], cycle_count = 0,
      now = 0, sent = [], slept = [], csv = []\<rparr>"

subsection \<open>The serial link and \<open>notify_nodemcu\<close>\<close>

text \<open>
  What the serial link does when a command is attempted: \<open>ser.write\<close> raises; the write
  succeeds and \<open>ser.readline().decode('utf-8').strip()\<close> raises; or that expression
  evaluates to a string (empty after a timeout). Every exception is caught by the
  \<open>except\<close> of \<open>notify_nodemcu\<close>, which leaves the assignments made so far in place.
\<close>

datatype link_event = WriteFails | ReadFails | Response string

definition notify_nodemcu :: "bool \<Rightarrow> link_event \<Rightarrow> state \<Rightarrow> state" where
  "notify_nodemcu exceeded ev st =
     (if exceeded \<and> \<not> device_active st then
        (case ev of
           WriteFails \<Rightarrow> st
         | ReadFails \<Rightarrow> st\<lparr>device_active := True, sent := sent st @ [THRESHOLD_EXCEEDED]\<rparr>
         | Response response \<Rightarrow>
             (if response \<noteq> []
              then st\<lparr>device_active := False, sent := sent st @ [THRESHOLD_EXCEEDED]\<rparr>
              else st\<lparr>device_active := True, sent := sent st @ [THRESHOLD_EXCEEDED]\<rparr>))
      else if \<not> exceeded \<and> device_active st then
        (case ev of
           WriteFails \<Rightarrow> st
         | ReadFails \<Rightarrow> st\<lparr>device_active := False, sent := sent st @ [RESET_DEVICE]\<rparr>
         | Response response \<Rightarrow> st\<lparr>device_active := False, sent := sent st @ [RESET_DEVICE]\<rparr>)
      else st)"

text \<open>
  The callers' test of a reading against the threshold (\<open>gather_data\<close> on the
  instantaneous average, \<open>data_collection_cycle\<close> on the prediction).
\<close>

definition threshold_check :: "real \<Rightarrow> link_event \<Rightarrow> state \<Rightarrow> state" where
  "threshold_check reading ev st =
     (if reading > TEMP_THRESHOLD then notify_nodemcu True ev st
      else notify_nodemcu False ev st)"

text \<open>A sequence of readings, each with what the link would do if a command is sent.\<close>

fun threshold_run :: "(real \<times> link_event) list \<Rightarrow> state \<Rightarrow> state" where
  "threshold_run [] st = st"
| "threshold_run ((reading, ev) # rest) st = threshold_run rest (threshold_check reading ev st)"

subsection \<open>\<open>predict_temperature\<close>\<close>

definition np_mean :: "real list \<Rightarrow> real" where
  "np_mean xs = sum_list xs / real (length xs)"

record linear_model =
  coef :: real
  intercept :: real

text \<open>
  scikit-learn's \<open>LinearRegression().fit(X, y)\<close> for one feature: it rejects an input
  with no sample (\<open>ValueError\<close>); otherwise it centres both columns, takes the
  minimum-norm least-squares solution for the slope (0 when every centred index is 0) and
  sets the intercept from the means.
\<close>

definition LinearRegression_fit :: "real list \<Rightarrow> real list \<Rightarrow> py_error + linear_model" where
  "LinearRegression_fit X y =
     (if X = [] \<or> length X \<noteq> length y then Inl ValueError
      else
        (let X_offset = np_mean X;
             y_offset = np_mean y;
             sxx = (\<Sum>x\<leftarrow>X. (x - X_offset) * (x - X_offset));
             sxy = (\<Sum>(x, v)\<leftarrow>zip X y. (x - X_offset) * (v - y_offset));
             c = (if sxx = 0 then 0 else sxy / sxx)
         in Inr \<lparr>coef = c, intercept = y_offset - X_offset * c\<rparr>))"

definition model_predict :: "linear_model \<Rightarrow> real \<Rightarrow> real" where
  "model_predict m x = x * coef m + intercept m"

text \<open>The body of the \<open>try\<close> block of \<open>predict_temperature\<close>.\<close>

definition predict_body :: "real list \<Rightarrow> py_error + real" where
  "predict_body data =
     (case LinearRegression_fit (map real [0..<length data]) data of
        Inl e \<Rightarrow> Inl e
      | Inr m \<Rightarrow> Inr (model_predict m (real (length data + 600))))"

definition predict_temperature :: "real list \<Rightarrow> real" where
  "predict_temperature data =
     (case predict_body data of Inl e \<Rightarrow> 0 | Inr prediction \<Rightarrow> prediction)"

subsection \<open>The environment of the scheduler\<close>

text \<open>
  What the world does during one pass of the sampling loop: \<open>sensor.pixels\<close> returns a
  grid or raises (\<open>None\<close>); the link reacts as \<open>link\<close> says if a command is sent; and
  the pass takes \<open>busy\<close> seconds (never less than 0) on top of its \<open>time.sleep(1)\<close>.
\<close>

record tick =
  pixels :: "real list list option"
  link :: link_event
  busy :: real

text \<open>
  One cycle: the passes of its gathering window by index, the link's reaction to the
  command decided on the prediction, and the time the processing after the window takes.
\<close>

record cycle_env =
  ticks :: "nat \<Rightarrow> tick"
  final_link :: link_event
  processing :: real

definition elapse :: "real \<Rightarrow> state \<Rightarrow> state" where
  "elapse d st = st\<lparr>now := now st + max 0 d\<rparr>"

text \<open>
  \<open>time.sleep(d)\<close>: the clock advances by \<open>d\<close> and the call is recorded. Python raises
  for a negative argument; \<open>sleeps_positive\<close> below shows that none is ever passed.
\<close>

definition time_sleep :: "real \<Rightarrow> state \<Rightarrow> state" where
  "time_sleep d st = st\<lparr>now := now st + d, slept := slept st @ [d]\<rparr>"

subsection \<open>\<open>gather_data\<close>\<close>

text \<open>The rest of a pass of the loop once \<open>sensor.pixels\<close> has returned a grid.\<close>

definition sample_tick :: "tick \<Rightarrow> real list list \<Rightarrow> state \<Rightarrow> state" where
  "sample_tick tk temp_grid st =
     time_sleep 1 (elapse (busy tk) (threshold_check (np_mean (concat temp_grid)) (link tk) st))"

lemma now_notify_nodemcu [simp]: "now (notify_nodemcu exceeded ev st) = now st"
  by (simp add: notify_nodemcu_def split: link_event.splits)

lemma now_threshold_check [simp]: "now (threshold_check reading ev st) = now st"
  by (simp add: threshold_check_def)

lemma now_sample_tick: "now (sample_tick tk temp_grid st) = now st + max 0 (busy tk) + 1"
  by (simp add: sample_tick_def time_sleep_def elapse_def)

lemma window_measure_decreases:
  fixes a b :: real
  assumes "a < 600" and "a + 1 \<le> b"
  shows "nat \<lceil>600 - b\<rceil> < nat \<lceil>600 - a\<rceil>"
proof -
  have "600 - b \<le> (600 - a) - 1"
    using assms(2) by linarith
  then have "\<lceil>600 - b\<rceil> \<le> \<lceil>(600 - a) - 1\<rceil>"
    by (rule ceiling_mono)
  also have "\<lceil>(600 - a) - 1\<rceil> = \<lceil>600 - a\<rceil> - 1"
    by (rule ceiling_diff_one)
  finally have "\<lceil>600 - b\<rceil> < \<lceil>600 - a\<rceil>"
    by linarith
  moreover have "0 < \<lceil>600 - a\<rceil>"
    using assms(1) by (simp add: ceiling_less_iff)
  ultimately show ?thesis
    by linarith
qed

text \<open>
  The \<open>while\<close> loop inside the \<open>try\<close>. The \<open>try\<close> encloses the whole loop, so an
  exception of \<open>sensor.pixels\<close> leaves the loop. The loop ends because every pass
  advances the clock by a second or more.
\<close>

function gather_loop ::
  "(nat \<Rightarrow> tick) \<Rightarrow> real \<Rightarrow> nat \<Rightarrow> real list \<Rightarrow> state \<Rightarrow> real list \<times> state" where
  "gather_loop env start_time i temperatures st =
     (if now st - start_time < 600 then
        (case pixels (env i) of
           None \<Rightarrow> (temperatures, elapse (busy (env i)) st)
         | Some temp_grid \<Rightarrow>
             gather_loop env start_time (Suc i)
               (temperatures @ [np_mean (concat temp_grid)])
               (sample_tick (env i) temp_grid st))
      else (temperatures, st))"
  by pat_completeness auto
termination
proof (relation "measure (\<lambda>(env, start_time, i, temperatures, st).
    nat \<lceil>600 - (now st - start_time)\<rceil>)")
  show "wf (measure (\<lambda>(env, start_time, i, temperatures, st).
      nat \<lceil>600 - (now st - start_time)\<rceil>))"
    by simp
next
  fix env :: "nat \<Rightarrow> tick" and start_time :: real and i :: nat
    and temperatures :: "real list" and st :: state and temp_grid :: "real list list"
  assume "now st - start_time < 600"
  moreover have "(now st - start_time) + 1 \<le> now (sample_tick (env i) temp_grid st) - start_time"
    by (simp add: now_sample_tick)
  ultimately have "nat \<lceil>600 - (now (sample_tick (env i) temp_grid st) - start_time)\<rceil>
      < nat \<lceil>600 - (now st - start_time)\<rceil>"
    by (rule window_measure_decreases)
  then show "((env, start_time, Suc i, temperatures @ [np_mean (concat temp_grid)],
          sample_tick (env i) temp_grid st), env, start_time, i, temperatures, st)
        \<in> measure (\<lambda>(env, start_time, i, temperatures, st).
            nat \<lceil>600 - (now st - start_time)\<rceil>)"
    by simp
qed

declare gather_loop.simps [simp del]

definition gather_data :: "(nat \<Rightarrow> tick) \<Rightarrow> state \<Rightarrow> real list \<times> state" where
  "gather_data env st =
     (let start_time = now st;
          (temperatures, st1) = gather_loop env start_time 0 [] st;
          avg_temp = (if temperatures \<noteq> [] then np_mean temperatures else 0)
      in (temperatures,
          st1\<lparr>csv := csv st1 @ [WindowRow (cycle_count st1) avg_temp (avg_temp > TEMP_THRESHOLD)]\<rparr>))"

subsection \<open>\<open>data_collection_cycle\<close>\<close>

text \<open>The first statement of a cycle: \<open>cycle_count += 1\<close>.\<close>

definition begin_cycle :: "state \<Rightarrow> state" where
  "begin_cycle st = st\<lparr>cycle_count := cycle_count st + 1\<rparr>"

text \<open>From \<open>gather_data()\<close> to the command decided on the prediction.\<close>

definition cycle_body :: "cycle_env \<Rightarrow> state \<Rightarrow> state" where
  "cycle_body ce st =
     (let (temp_data, st1) = gather_data (ticks ce) st;
          st2 = st1\<lparr>sensor_data := temp_data\<rparr>;
          predicted_temp = predict_temperature temp_data;
          avg_temp = (if temp_data \<noteq> [] then np_mean temp_data else 0);
          st3 = st2\<lparr>cycle_data := cycle_data st2 @
                  [\<lparr>cycle = cycle_count st2, avg_temp = avg_temp,
                    predicted_temp = predicted_temp\<rparr>]\<rparr>;
          st4 = st3\<lparr>csv := csv st3 @ [CycleRow (cycle_count st3) avg_temp predicted_temp]\<rparr>;
          st5 = threshold_check predicted_temp (final_link ce) st4
      in elapse (processing ce) st5)"

text \<open>The padding at the end of a cycle.\<close>

definition pad_cycle :: "real \<Rightarrow> state \<Rightarrow> state" where
  "pad_cycle cycle_start st =
     (let cycle_duration = now st - cycle_start
      in if cycle_duration < 600 then time_sleep (600 - cycle_duration) st else st)"

text \<open>One pass of \<open>for _ in range(6)\<close>.\<close>

definition one_cycle :: "cycle_env \<Rightarrow> state \<Rightarrow> state" where
  "one_cycle ce st =
     (let st1 = begin_cycle st;
          cycle_start = now st1
      in pad_cycle cycle_start (cycle_body ce st1))"

text \<open>The first \<open>k\<close> passes of the \<open>for\<close> loop of an hour.\<close>

primrec cycles_in_hour :: "(nat \<Rightarrow> cycle_env) \<Rightarrow> nat \<Rightarrow> state \<Rightarrow> state" where
  "cycles_in_hour h 0 st = st"
| "cycles_in_hour h (Suc k) st = one_cycle (h k) (cycles_in_hour h k st)"

text \<open>The padding at the end of an hour.\<close>

definition pad_hour :: "real \<Rightarrow> state \<Rightarrow> state" where
  "pad_hour hour_start st =
     (let elapsed = now st - hour_start
      in if elapsed < 3600 then time_sleep (3600 - elapsed) st else st)"

text \<open>One pass of \<open>while running\<close>.\<close>

definition one_hour :: "(nat \<Rightarrow> cycle_env) \<Rightarrow> state \<Rightarrow> state" where
  "one_hour h st =
     (let hour_start = now st
      in pad_hour hour_start (cycles_in_hour h 6 st))"

text \<open>
  \<open>running\<close> is never cleared, so the loop does not end; the state after its first
  passes is computed from the environments of those hours.
\<close>

fun data_collection_cycle :: "(nat \<Rightarrow> cycle_env) list \<Rightarrow> state \<Rightarrow> state" where
  "data_collection_cycle [] st = st"
| "data_collection_cycle (h # hs) st = data_collection_cycle hs (one_hour h st)"

text \<open>
  The scheduler between two cycles: after the hours \<open>hs\<close> and \<open>k\<close> cycles of the next
  hour, \<open>6 * length hs + k\<close> cycles are complete.
\<close>

definition scheduler_after :: "(nat \<Rightarrow> cycle_env) list \<Rightarrow> (nat \<Rightarrow> cycle_env) \<Rightarrow> nat \<Rightarrow> state" where
  "scheduler_after hs h k = cycles_in_hour h k (data_collection_cycle hs initial_state)"

subsection \<open>\<open>get_data\<close>\<close>

record status =
  status_cycle :: int
  current_avg :: real
  latest_predicted :: real
  history :: "cycle_record list"

text \<open>\<open>xs[-1]\<close>, which raises on an empty list.\<close>

definition py_last :: "'a list \<Rightarrow> py_error + 'a" where
  "py_last xs = (if xs = [] then Inl IndexError else Inr (last xs))"

definition get_data :: "state \<Rightarrow> py_error + status" where
  "get_data st =
     (case (if cycle_data st \<noteq> []
            then (case py_last (cycle_data st) of
                    Inl e \<Rightarrow> Inl e
                  | Inr r \<Rightarrow> Inr (predicted_temp r))
            else Inr 0) of
        Inl e \<Rightarrow> Inl e
      | Inr latest \<Rightarrow>
          Inr \<lparr>status_cycle = cycle_count st,
               current_avg = (if sensor_data st \<noteq> [] then np_mean (sensor_data st) else 0),
               latest_predicted = latest,
               history = cycle_data st\<rparr>)"

subsection \<open>\<open>cleanup_files\<close>\<close>

text \<open>
  The files that exist, each with its modification time. \<open>os.remove\<close> deletes the file
  or raises, as \<open>remove_fails\<close> says. A message of the logger is appended to the log
  file, whose modification time becomes the current time when it still has a name.
\<close>

type_synonym filesystem = "string \<rightharpoonup> real"

definition CSV_FILE :: string where
  "CSV_FILE = ''temperature_data.csv''"

definition LOG_FILE :: string where
  "LOG_FILE = ''temperature_log.log''"

definition log_write :: "real \<Rightarrow> filesystem \<Rightarrow> filesystem" where
  "log_write t fs = (case fs LOG_FILE of None \<Rightarrow> fs | Some m \<Rightarrow> fs(LOG_FILE \<mapsto> t))"

definition os_remove :: "(string \<Rightarrow> bool) \<Rightarrow> string \<Rightarrow> filesystem \<Rightarrow> py_error + filesystem" where
  "os_remove remove_fails file fs =
     (if remove_fails file \<or> fs file = None then Inl OSError else Inr (fs(file := None)))"

text \<open>The body of \<open>for file in [CSV_FILE, LOG_FILE]\<close>.\<close>

definition cleanup_check :: "(string \<Rightarrow> bool) \<Rightarrow> real \<Rightarrow> string \<Rightarrow> filesystem \<Rightarrow> filesystem" where
  "cleanup_check remove_fails t file fs =
     (case fs file of
        None \<Rightarrow> fs
      | Some mtime \<Rightarrow>
          (let file_age_days = (t - mtime) / 86400
           in if file_age_days > 30 then
                (case os_remove remove_fails file fs of
                   Inr fs' \<Rightarrow> log_write t fs'
                 | Inl e \<Rightarrow> log_write t fs)
              else fs))"

text \<open>One pass of the \<open>while True\<close> of \<open>cleanup_files\<close>, at clock value \<open>t\<close>.\<close>

definition cleanup_files :: "(string \<Rightarrow> bool) \<Rightarrow> real \<Rightarrow> filesystem \<Rightarrow> filesystem" where
  "cleanup_files remove_fails t fs =
     cleanup_check remove_fails t LOG_FILE (cleanup_check remove_fails t CSV_FILE fs)"

subsection \<open>Auxiliary notions and sample environments\<close>

text \<open>The samples that the window of the next cycle collects, starting from \<open>st\<close>.\<close>

definition window_samples :: "cycle_env \<Rightarrow> state \<Rightarrow> real list" where
  "window_samples ce st = fst (gather_data (ticks ce) (begin_cycle st))"

text \<open>The record that cycle \<open>n\<close> appends for a window with samples \<open>temp_data\<close>.\<close>

definition window_record :: "int \<Rightarrow> real list \<Rightarrow> cycle_record" where
  "window_record n temp_data =
     \<lparr>cycle = n, avg_temp = (if temp_data \<noteq> [] then np_mean temp_data else 0),
      predicted_temp = predict_temperature temp_data\<rparr>"

text \<open>The counter equals the number of records, and the records are numbered from 1.\<close>

definition history_ok :: "state \<Rightarrow> bool" where
  "history_ok st \<longleftrightarrow>
     cycle_count st = int (length (cycle_data st))
     \<and> map cycle (cycle_data st) = map int [1..<Suc (length (cycle_data st))]"

text \<open>
  A window whose second pass finds the sensor failing; every other pass would read a
  grid of 30 degrees.
\<close>

definition faulty_window :: "nat \<Rightarrow> tick" where
  "faulty_window i =
     \<lparr>pixels = (if i = 1 then None else Some [[30]]), link = Response [], busy = 0\<rparr>"

definition interrupted_cycle :: cycle_env where
  "interrupted_cycle = \<lparr>ticks = faulty_window, final_link = Response [], processing = 0\<rparr>"

text \<open>
  A cycle with a slow sensor (each pass takes 300 seconds, so the window has two passes)
  whose average rises from 31 to 32 degrees; the actuator never answers.
\<close>

definition warming_cycle :: cycle_env where
  "warming_cycle =
     \<lparr>ticks = (\<lambda>i. \<lparr>pixels = Some [[30, 32], [31, 31 + 4 * real i]], link = Response [],
                    busy = 299\<rparr>),
      final_link = Response [], processing = 0\<rparr>"

section \<open>The threshold controller\<close>

lemma notify_nodemcu_frame [simp]:
  "cycle_count (notify_nodemcu exceeded ev st) = cycle_count st"
  "cycle_data (notify_nodemcu exceeded ev st) = cycle_data st"
  "sensor_data (notify_nodemcu exceeded ev st) = sensor_data st"
  "slept (notify_nodemcu exceeded ev st) = slept st"
  "csv (notify_nodemcu exceeded ev st) = csv st"
  by (simp_all add: notify_nodemcu_def split: link_event.splits)

lemma threshold_check_frame [simp]:
  "cycle_count (threshold_check reading ev st) = cycle_count st"
  "cycle_data (threshold_check reading ev st) = cycle_data st"
  "sensor_data (threshold_check reading ev st) = sensor_data st"
  "slept (threshold_check reading ev st) = slept st"
  "csv (threshold_check reading ev st) = csv st"
  by (simp_all add: threshold_check_def)

text \<open>
  When the write succeeds, a command goes out exactly when the condition differs from
  the stored state; and when no answer arrives, the stored state follows the condition.
\<close>

lemma notify_nodemcu_sends_iff:
  "ev \<noteq> WriteFails \<Longrightarrow>
     (sent (notify_nodemcu exceeded ev st) \<noteq> sent st) = (exceeded \<noteq> device_active st)"
  by (cases ev) (auto simp add: notify_nodemcu_def)

lemma notify_nodemcu_silent_link:
  "device_active (notify_nodemcu exceeded (Response []) st) = exceeded"
  by (auto simp add: notify_nodemcu_def)

text \<open>
  Claim C1: starting from an inactive actuator, a command is sent exactly when the
  condition (reading above 35.0) differs from the state the previous evaluation left,
  and the same command is never sent twice in a row, whatever the actuator answers.

  The code does not keep the second half. With two readings of 36 and an actuator that
  answers \<open>OK\<close> to the first command, \<open>device_active\<close> is set and cleared again by the
  answer, so the second reading sends \<open>THRESHOLD_EXCEEDED\<close> once more.
\<close>

theorem notify_nodemcu_repeats_command:
  "sent (threshold_run [(36, Response ''OK''), (36, Response ''OK'')] initial_state)
     = [THRESHOLD_EXCEEDED, THRESHOLD_EXCEEDED]"
  by (simp add: threshold_check_def notify_nodemcu_def TEMP_THRESHOLD_def initial_state_def)

section \<open>The gathering window\<close>

lemma sample_tick_frame [simp]:
  "cycle_count (sample_tick tk g st) = cycle_count st"
  "cycle_data (sample_tick tk g st) = cycle_data st"
  "sensor_data (sample_tick tk g st) = sensor_data st"
  "csv (sample_tick tk g st) = csv st"
  "slept (sample_tick tk g st) = slept st @ [1]"
  by (simp_all add: sample_tick_def time_sleep_def elapse_def)

text \<open>A failing read with time left in the window ends the loop at once.\<close>

lemma gather_loop_fault:
  "now st - start_time < 600 \<Longrightarrow> pixels (env i) = None \<Longrightarrow>
     gather_loop env start_time i temperatures st = (temperatures, elapse (busy (env i)) st)"
  by (simp add: gather_loop.simps [of env start_time i temperatures st])

lemma gather_loop_frame:
  "cycle_count (snd (gather_loop env s i ts st)) = cycle_count st
   \<and> cycle_data (snd (gather_loop env s i ts st)) = cycle_data st
   \<and> sensor_data (snd (gather_loop env s i ts st)) = sensor_data st
   \<and> csv (snd (gather_loop env s i ts st)) = csv st"
proof (induction env s i ts st rule: gather_loop.induct)
  case (1 env s i ts st)
  show ?case
  proof (cases "now st - s < 600")
    case False
    then show ?thesis
      by (simp add: gather_loop.simps [of env s i ts st])
  next
    case True
    show ?thesis
    proof (cases "pixels (env i)")
      case None
      with True show ?thesis
        by (simp add: gather_loop.simps [of env s i ts st] elapse_def)
    next
      case (Some g)
      with True 1 show ?thesis
        by (simp add: gather_loop.simps [of env s i ts st])
    qed
  qed
qed

lemma gather_loop_now: "now st \<le> now (snd (gather_loop env s i ts st))"
proof (induction env s i ts st rule: gather_loop.induct)
  case (1 env s i ts st)
  show ?case
  proof (cases "now st - s < 600")
    case False
    then show ?thesis
      by (simp add: gather_loop.simps [of env s i ts st])
  next
    case True
    show ?thesis
    proof (cases "pixels (env i)")
      case None
      with True show ?thesis
        by (simp add: gather_loop.simps [of env s i ts st] elapse_def)
    next
      case (Some g)
      have "now st \<le> now (sample_tick (env i) g st)"
        by (simp add: now_sample_tick)
      also have "\<dots> \<le> now (snd (gather_loop env s (Suc i) (ts @ [np_mean (concat g)])
          (sample_tick (env i) g st)))"
        using 1 True Some by simp
      finally show ?thesis
        using True Some by (simp add: gather_loop.simps [of env s i ts st])
    qed
  qed
qed

lemma gather_loop_slept:
  "list_all (\<lambda>d. 0 < d) (slept st) \<Longrightarrow>
     list_all (\<lambda>d. 0 < d) (slept (snd (gather_loop env s i ts st)))"
proof (induction env s i ts st rule: gather_loop.induct)
  case (1 env s i ts st)
  show ?case
  proof (cases "now st - s < 600")
    case False
    then show ?thesis
      using "1.prems" by (simp add: gather_loop.simps [of env s i ts st])
  next
    case True
    show ?thesis
    proof (cases "pixels (env i)")
      case None
      with True "1.prems" show ?thesis
        by (simp add: gather_loop.simps [of env s i ts st] elapse_def)
    next
      case (Some g)
      have "list_all (\<lambda>d. 0 < d) (slept (sample_tick (env i) g st))"
        using "1.prems" by simp
      then have "list_all (\<lambda>d. 0 < d) (slept (snd (gather_loop env s (Suc i)
          (ts @ [np_mean (concat g)]) (sample_tick (env i) g st))))"
        using "1.IH" True Some by simp
      then show ?thesis
        using True Some by (simp add: gather_loop.simps [of env s i ts st])
    qed
  qed
qed

lemma gather_data_frame [simp]:
  "cycle_count (snd (gather_data env st)) = cycle_count st"
  "cycle_data (snd (gather_data env st)) = cycle_data st"
  "sensor_data (snd (gather_data env st)) = sensor_data st"
  using gather_loop_frame [of env "now st" 0 "[]" st]
  by (simp_all add: gather_data_def Let_def case_prod_beta)

lemma gather_data_now: "now st \<le> now (snd (gather_data env st))"
  using gather_loop_now [of st env "now st" 0 "[]"]
  by (simp add: gather_data_def Let_def case_prod_beta)

lemma gather_data_slept:
  "list_all (\<lambda>d. 0 < d) (slept st) \<Longrightarrow>
     list_all (\<lambda>d. 0 < d) (slept (snd (gather_data env st)))"
  using gather_loop_slept [of st env "now st" 0 "[]"]
  by (simp add: gather_data_def Let_def case_prod_beta)

text \<open>
  Claim C2: when a sampling step fails, the window goes on for the rest of its 600
  seconds and only that pass is skipped.

  The code leaves the loop at the first failure: in \<open>faulty_window\<close>, the window of
  the first cycle returns the single sample of its first pass, one second after it
  started, and writes its row to the CSV file.
\<close>

theorem gather_data_stops_at_fault:
  "gather_data faulty_window (begin_cycle initial_state)
     = ([30], initial_state\<lparr>cycle_count := 1, now := 1, slept := [1],
                            csv := [WindowRow 1 30 False]\<rparr>)"
  by (simp add: gather_data_def gather_loop.simps faulty_window_def initial_state_def
      begin_cycle_def sample_tick_def threshold_check_def notify_nodemcu_def TEMP_THRESHOLD_def
      np_mean_def elapse_def time_sleep_def Let_def)

section \<open>The forecaster\<close>

text \<open>
  Claim C3, as the spec has it: a single-point input \<open>[v]\<close> yields the fallback 0.0.
  It fails at \<open>[25]\<close>.
\<close>

theorem predict_temperature_single_not_fallback:
  "predict_temperature [25] \<noteq> 0"
  by (simp add: predict_temperature_def predict_body_def LinearRegression_fit_def np_mean_def
      model_predict_def)

text \<open>
  Claim C3, amended: on a single-point input \<open>[v]\<close> the regression succeeds with slope 0
  and intercept \<open>v\<close>, and \<open>predict_temperature\<close> returns \<open>v\<close>.
\<close>

theorem predict_temperature_single:
  "predict_body [v] = Inr v \<and> predict_temperature [v] = v"
  by (simp add: predict_temperature_def predict_body_def LinearRegression_fit_def np_mean_def
      model_predict_def)

text \<open>
  Claim C5: on \<open>[1, 2, 3, 4, 5]\<close> the least-squares fit over (index, value) has slope 1
  and intercept 1, and the value returned is the one at index 605, which is 606.
\<close>

theorem predict_temperature_perfect_line:
  "LinearRegression_fit (map real [0..<length [1, 2, 3, 4, 5 :: real]]) [1, 2, 3, 4, 5]
     = Inr \<lparr>coef = 1, intercept = 1\<rparr>
   \<and> predict_temperature [1, 2, 3, 4, 5] = 606"
  by (simp add: predict_temperature_def predict_body_def LinearRegression_fit_def np_mean_def
      model_predict_def upt_rec)

text \<open>
  Claim C6: on the empty input the regression raises, the \<open>except\<close> branch catches it,
  and \<open>predict_temperature\<close> returns 0.0.
\<close>

theorem predict_temperature_empty:
  "predict_body [] = Inl ValueError \<and> predict_temperature [] = 0"
  by (simp add: predict_temperature_def predict_body_def LinearRegression_fit_def)

section \<open>The scheduler\<close>

subsection \<open>What a cycle changes\<close>

lemma cycle_body_globals:
  "cycle_count (cycle_body ce st) = cycle_count st"
  "sensor_data (cycle_body ce st) = fst (gather_data (ticks ce) st)"
  "cycle_data (cycle_body ce st)
     = cycle_data st @ [window_record (cycle_count st) (fst (gather_data (ticks ce) st))]"
  by (simp_all add: cycle_body_def Let_def case_prod_beta elapse_def window_record_def)

lemma cycle_body_slept:
  "list_all (\<lambda>d. 0 < d) (slept st) \<Longrightarrow> list_all (\<lambda>d. 0 < d) (slept (cycle_body ce st))"
  using gather_data_slept [of st "ticks ce"]
  by (simp add: cycle_body_def Let_def case_prod_beta elapse_def)

lemma pad_cycle_globals [simp]:
  "cycle_count (pad_cycle t0 st) = cycle_count st"
  "sensor_data (pad_cycle t0 st) = sensor_data st"
  "cycle_data (pad_cycle t0 st) = cycle_data st"
  by (simp_all add: pad_cycle_def Let_def time_sleep_def)

lemma pad_cycle_now: "now (pad_cycle t0 st) = t0 + max 600 (now st - t0)"
  by (simp add: pad_cycle_def Let_def time_sleep_def)

lemma pad_cycle_slept:
  "slept (pad_cycle t0 st)
     = slept st @ (if now st - t0 < 600 then [600 - (now st - t0)] else [])"
  by (simp add: pad_cycle_def Let_def time_sleep_def)

lemma pad_hour_globals [simp]:
  "cycle_count (pad_hour t0 st) = cycle_count st"
  "sensor_data (pad_hour t0 st) = sensor_data st"
  "cycle_data (pad_hour t0 st) = cycle_data st"
  by (simp_all add: pad_hour_def Let_def time_sleep_def)

lemma pad_hour_slept:
  "slept (pad_hour t0 st)
     = slept st @ (if now st - t0 < 3600 then [3600 - (now st - t0)] else [])"
  by (simp add: pad_hour_def Let_def time_sleep_def)

lemma one_cycle_globals:
  "cycle_count (one_cycle ce st) = cycle_count st + 1"
  "sensor_data (one_cycle ce st) = window_samples ce st"
  "cycle_data (one_cycle ce st)
     = cycle_data st @ [window_record (cycle_count st + 1) (window_samples ce st)]"
  by (simp_all add: one_cycle_def Let_def cycle_body_globals window_samples_def begin_cycle_def)

lemma one_cycle_now:
  "now (one_cycle ce st) = now st + max 600 (now (cycle_body ce (begin_cycle st)) - now st)"
  by (simp add: one_cycle_def Let_def pad_cycle_now begin_cycle_def)

lemma one_cycle_slept:
  assumes "list_all (\<lambda>d. 0 < d) (slept st)"
  shows "list_all (\<lambda>d. 0 < d) (slept (one_cycle ce st))"
proof -
  have "list_all (\<lambda>d. 0 < d) (slept (begin_cycle st))"
    using assms by (simp add: begin_cycle_def)
  then have "list_all (\<lambda>d. 0 < d) (slept (cycle_body ce (begin_cycle st)))"
    by (rule cycle_body_slept)
  then show ?thesis
    by (simp add: one_cycle_def Let_def pad_cycle_slept)
qed

text \<open>
  Every cycle spans 600 seconds or more, so six of them span an hour or more and the
  padding of the hour has nothing left to add.
\<close>

lemma cycles_in_hour_now: "now st + 600 * real k \<le> now (cycles_in_hour h k st)"
proof (induction k)
  case 0
  show ?case by simp
next
  case (Suc k)
  have "now (cycles_in_hour h k st) + 600 \<le> now (one_cycle (h k) (cycles_in_hour h k st))"
    by (simp add: one_cycle_now)
  with Suc show ?case
    by (simp add: algebra_simps)
qed

lemma one_hour_never_pads: "one_hour h st = cycles_in_hour h 6 st"
  using cycles_in_hour_now [of st 6 h]
  by (simp add: one_hour_def Let_def pad_hour_def)

subsection \<open>The numbering of the history\<close>

lemma history_ok_initial: "history_ok initial_state"
  by (simp add: history_ok_def initial_state_def)

lemma history_ok_one_cycle:
  assumes "history_ok st"
  shows "history_ok (one_cycle ce st)"
  using assms by (simp add: history_ok_def one_cycle_globals window_record_def)

lemma length_one_cycle: "length (cycle_data (one_cycle ce st)) = Suc (length (cycle_data st))"
  by (simp add: one_cycle_globals)

lemma history_ok_cycles_in_hour:
  "history_ok st \<Longrightarrow> history_ok (cycles_in_hour h k st)"
  by (induction k) (simp_all add: history_ok_one_cycle)

lemma length_cycles_in_hour:
  "length (cycle_data (cycles_in_hour h k st)) = length (cycle_data st) + k"
  by (induction k) (simp_all add: length_one_cycle)

lemma history_ok_pad_hour: "history_ok st \<Longrightarrow> history_ok (pad_hour t0 st)"
  by (simp add: history_ok_def)

lemma history_ok_one_hour: "history_ok st \<Longrightarrow> history_ok (one_hour h st)"
  by (simp add: one_hour_def Let_def history_ok_pad_hour history_ok_cycles_in_hour)

lemma length_one_hour: "length (cycle_data (one_hour h st)) = length (cycle_data st) + 6"
  by (simp add: one_hour_def Let_def length_cycles_in_hour)

lemma history_ok_data_collection_cycle:
  "history_ok st \<Longrightarrow> history_ok (data_collection_cycle hs st)"
  by (induction hs arbitrary: st) (simp_all add: history_ok_one_hour)

lemma length_data_collection_cycle:
  "length (cycle_data (data_collection_cycle hs st)) = length (cycle_data st) + 6 * length hs"
  by (induction hs arbitrary: st) (simp_all add: length_one_hour)

lemma history_ok_scheduler_after: "history_ok (scheduler_after hs h k)"
  by (simp add: scheduler_after_def history_ok_cycles_in_hour history_ok_data_collection_cycle
      history_ok_initial)

lemma length_scheduler_after:
  "length (cycle_data (scheduler_after hs h k)) = 6 * length hs + k"
  by (simp add: scheduler_after_def length_cycles_in_hour length_data_collection_cycle
      initial_state_def)

lemma cycle_count_scheduler_after:
  "cycle_count (scheduler_after hs h k) = int (6 * length hs + k)"
  using history_ok_scheduler_after [of hs h k]
  by (simp add: history_ok_def length_scheduler_after)

lemma scheduler_after_Suc:
  "scheduler_after hs h (Suc k) = one_cycle (h k) (scheduler_after hs h k)"
  by (simp add: scheduler_after_def)

subsection \<open>Two sample runs\<close>

lemmas run_defs = scheduler_after_def one_cycle_def cycle_body_def pad_cycle_def gather_data_def
  gather_loop.simps begin_cycle_def initial_state_def sample_tick_def threshold_check_def
  notify_nodemcu_def TEMP_THRESHOLD_def np_mean_def elapse_def time_sleep_def Let_def
  predict_temperature_def predict_body_def LinearRegression_fit_def model_predict_def upt_rec

lemma warming_first_cycle:
  "one_cycle warming_cycle initial_state =
     \<lparr>device_active = True, sensor_data = [31, 32],
      cycle_data = [\<lparr>cycle = 1, avg_temp = 63 / 2, predicted_temp = 633\<rparr>],
      cycle_count = 1, now = 600, sent = [THRESHOLD_EXCEEDED], slept = [1, 1],
      csv = [WindowRow 1 (63 / 2) False, CycleRow 1 (63 / 2) 633]\<rparr>"
  by (simp add: run_defs warming_cycle_def)

lemma warming_two_cycles:
  "cycle_data (scheduler_after [] (\<lambda>_. warming_cycle) 2) =
     [\<lparr>cycle = 1, avg_temp = 63 / 2, predicted_temp = 633\<rparr>,
      \<lparr>cycle = 2, avg_temp = 63 / 2, predicted_temp = 633\<rparr>]"
  by (simp add: run_defs warming_cycle_def eval_nat_numeral)

lemma interrupted_first_cycle:
  "one_cycle interrupted_cycle initial_state =
     \<lparr>device_active = False, sensor_data = [30],
      cycle_data = [\<lparr>cycle = 1, avg_temp = 30, predicted_temp = 30\<rparr>],
      cycle_count = 1, now = 600, sent = [], slept = [1, 599],
      csv = [WindowRow 1 30 False, CycleRow 1 30 30]\<rparr>"
  by (simp add: run_defs interrupted_cycle_def faulty_window_def)

subsection \<open>The history\<close>

text \<open>
  Claim C4: in every run the records of the history are numbered 1, 2, 3, ... without a
  gap: the first record has cycle 1, each later record has the cycle of its predecessor
  plus 1, and no record has cycle 0. Stated for the history after any number of hours
  and any number of cycles of the hour that follows, in every environment.
\<close>

theorem history_cycles_gapless:
  "let H = cycle_data (scheduler_after hs h k) in
     length H = 6 * length hs + k
     \<and> map cycle H = map int [1..<Suc (length H)]
     \<and> (H \<noteq> [] \<longrightarrow> cycle (hd H) = 1)
     \<and> (\<forall>i. 0 < i \<and> i < length H \<longrightarrow> cycle (H ! i) = cycle (H ! (i - 1)) + 1)
     \<and> (\<forall>r \<in> set H. cycle r \<noteq> 0)"
proof -
  define H where "H = cycle_data (scheduler_after hs h k)"
  have len: "length H = 6 * length hs + k"
    by (simp add: H_def length_scheduler_after)
  have cycles: "map cycle H = map int [1..<Suc (length H)]"
    using history_ok_scheduler_after [of hs h k] by (simp add: H_def history_ok_def)
  have nth: "cycle (H ! i) = int i + 1" if "i < length H" for i
  proof -
    have "cycle (H ! i) = map cycle H ! i"
      using that by simp
    also have "\<dots> = map int [1..<Suc (length H)] ! i"
      by (simp only: cycles)
    also have "\<dots> = int i + 1"
      using that by (simp del: upt_Suc)
    finally show ?thesis .
  qed
  have first: "cycle (hd H) = 1" if "H \<noteq> []"
    using that nth [of 0] by (simp add: hd_conv_nth)
  have step: "cycle (H ! i) = cycle (H ! (i - 1)) + 1" if "0 < i" and "i < length H" for i
    using that nth [of i] nth [of "i - 1"] by simp
  have nonzero: "cycle r \<noteq> 0" if "r \<in> set H" for r
  proof -
    from that obtain i where "i < length H" and "r = H ! i"
      by (auto simp: in_set_conv_nth)
    then show ?thesis
      using nth [of i] by simp
  qed
  show ?thesis
    unfolding Let_def H_def [symmetric]
    using len cycles first step nonzero by blast
qed

theorem history_cycles_gapless_witness:
  "cycle_data (scheduler_after [] (\<lambda>_. warming_cycle) 2) \<noteq> []
   \<and> cycle (hd (cycle_data (scheduler_after [] (\<lambda>_. warming_cycle) 2))) = 1
   \<and> (0::nat) < 1 \<and> 1 < length (cycle_data (scheduler_after [] (\<lambda>_. warming_cycle) 2))
   \<and> cycle (cycle_data (scheduler_after [] (\<lambda>_. warming_cycle) 2) ! 1)
       = cycle (cycle_data (scheduler_after [] (\<lambda>_. warming_cycle) 2) ! 0) + 1
   \<and> map cycle (cycle_data (scheduler_after [] (\<lambda>_. warming_cycle) 2)) = [1, 2]"
  using history_cycles_gapless [of "[]" "\<lambda>_. warming_cycle" 2]
  by (simp add: warming_two_cycles)

subsection \<open>The padding of cycles and hours\<close>

lemma cycles_in_hour_slept:
  "list_all (\<lambda>d. 0 < d) (slept st) \<Longrightarrow> list_all (\<lambda>d. 0 < d) (slept (cycles_in_hour h k st))"
  by (induction k) (simp_all add: one_cycle_slept)

lemma one_hour_slept:
  "list_all (\<lambda>d. 0 < d) (slept st) \<Longrightarrow> list_all (\<lambda>d. 0 < d) (slept (one_hour h st))"
  by (simp add: one_hour_def Let_def pad_hour_slept cycles_in_hour_slept)

lemma data_collection_cycle_slept:
  "list_all (\<lambda>d. 0 < d) (slept st)
     \<Longrightarrow> list_all (\<lambda>d. 0 < d) (slept (data_collection_cycle hs st))"
  by (induction hs arbitrary: st) (simp_all add: one_hour_slept)

lemma sleeps_positive: "list_all (\<lambda>d. 0 < d) (slept (scheduler_after hs h k))"
  by (simp add: scheduler_after_def cycles_in_hour_slept data_collection_cycle_slept
      initial_state_def)

text \<open>
  Claim C8: when the window and the processing of a cycle took less than 600 seconds,
  the scheduler sleeps the remainder and the cycle spans 600 seconds; when they took 600
  seconds or more it does not sleep and goes on at once; the six cycles of an hour are
  padded to 3600 seconds by the same rule; and no \<open>time.sleep\<close> of any run gets an
  argument that is negative or 0.

  The rule of the hour is stated on the padding step itself, for every start of the hour
  and every state it may find: it sleeps \<open>3600 - late\<close> when \<open>late\<close>, the time since the
  start of the hour, is below 3600, and does nothing otherwise. Within a run the six
  cycles of an hour, each padded to 600 seconds or longer, already span 3600 seconds, so
  there the second case applies.
\<close>

theorem padding_rule:
  "let work = cycle_body ce (begin_cycle st);
       cycle_duration = now work - now st;
       six = cycles_in_hour h 6 st;
       elapsed = now six - now st;
       late = now s - hour_start
   in one_cycle ce st
        = (if cycle_duration < 600 then time_sleep (600 - cycle_duration) work else work)
      \<and> now (one_cycle ce st) = now st + max 600 cycle_duration
      \<and> one_hour h st = pad_hour (now st) six
      \<and> pad_hour hour_start s = (if late < 3600 then time_sleep (3600 - late) s else s)
      \<and> now (pad_hour hour_start s) = hour_start + max 3600 late
      \<and> slept (pad_hour hour_start s) = slept s @ (if late < 3600 then [3600 - late] else [])
      \<and> one_hour h st = (if elapsed < 3600 then time_sleep (3600 - elapsed) six else six)
      \<and> now (one_hour h st) = now st + max 3600 elapsed
      \<and> 3600 \<le> elapsed
      \<and> list_all (\<lambda>d. 0 < d) (slept (scheduler_after hs h' k))"
proof -
  have span: "3600 \<le> now (cycles_in_hour h 6 st) - now st"
    using cycles_in_hour_now [of st 6 h] by simp
  show ?thesis
    using span
    by (simp add: Let_def one_cycle_def pad_cycle_def one_hour_def pad_hour_def begin_cycle_def
        time_sleep_def sleeps_positive)
qed

text \<open>
  A cycle cut short after one second sleeps 599 seconds; a cycle of 600 seconds does not
  sleep; an hour step that finds 600 seconds gone sleeps 3000 seconds; an hour step that
  finds 3700 seconds gone does nothing.
\<close>

theorem padding_rule_witness:
  "now (cycle_body interrupted_cycle (begin_cycle initial_state)) - now initial_state = 1
   \<and> slept (one_cycle interrupted_cycle initial_state) = [1, 599]
   \<and> now (one_cycle interrupted_cycle initial_state) = 600
   \<and> now (cycle_body warming_cycle (begin_cycle initial_state)) - now initial_state = 600
   \<and> one_cycle warming_cycle initial_state = cycle_body warming_cycle (begin_cycle initial_state)
   \<and> now (one_cycle warming_cycle initial_state) - 0 = 600
   \<and> slept (pad_hour 0 (one_cycle warming_cycle initial_state)) = [1, 1, 3000]
   \<and> now (pad_hour 0 (one_cycle warming_cycle initial_state)) = 3600
   \<and> pad_hour 0 (initial_state\<lparr>now := 3700\<rparr>) = initial_state\<lparr>now := 3700\<rparr>"
  using padding_rule
      [where ce = interrupted_cycle and st = initial_state and h = "\<lambda>_. warming_cycle"
         and hour_start = 0 and s = "one_cycle warming_cycle initial_state" and hs = "[]"
         and h' = "\<lambda>_. warming_cycle" and k = 0]
    padding_rule
      [where ce = warming_cycle and st = initial_state and h = "\<lambda>_. warming_cycle"
         and hour_start = 0 and s = "initial_state\<lparr>now := 3700\<rparr>" and hs = "[]"
         and h' = "\<lambda>_. warming_cycle" and k = 0]
  by (simp add: run_defs interrupted_cycle_def faulty_window_def warming_cycle_def)

section \<open>The status query\<close>

lemma get_data_globals:
  "cycle_count a = cycle_count b \<Longrightarrow> cycle_data a = cycle_data b
     \<Longrightarrow> sensor_data a = sensor_data b \<Longrightarrow> get_data a = get_data b"
  unfolding get_data_def by (simp only:)

lemma get_data_during_window: "get_data (snd (gather_data env st)) = get_data st"
  by (rule get_data_globals) simp_all

text \<open>
  Claim C7, as the spec has it: in every state with exactly \<open>N\<close> completed cycles the
  query returns \<open>cycle = N\<close>. It fails once the next cycle has begun: after one
  completed \<open>warming_cycle\<close> and the increment that opens the second cycle, the history
  has one record and the query returns \<open>cycle = 2\<close>.
\<close>

theorem status_running_counterexample:
  "length (cycle_data (begin_cycle (scheduler_after [] (\<lambda>_. warming_cycle) 1))) = 1
   \<and> get_data (begin_cycle (scheduler_after [] (\<lambda>_. warming_cycle) 1))
     = Inr \<lparr>status_cycle = 2, current_avg = 63 / 2, latest_predicted = 633,
            history = [\<lparr>cycle = 1, avg_temp = 63 / 2, predicted_temp = 633\<rparr>]\<rparr>"
  by (simp add: scheduler_after_def warming_first_cycle begin_cycle_def get_data_def py_last_def
      np_mean_def)

text \<open>
  Claim C7, amended: between two cycles, with \<open>N \<ge> 1\<close> cycles complete (\<open>N\<close> is
  \<open>6 * length hs + Suc k\<close>), the query does not fail and returns \<open>cycle = N\<close>, the history
  of length \<open>N\<close> (the earlier history followed by the record of cycle \<open>N\<close>), the predicted
  value of the \<open>N\<close>-th record, and the mean of the samples of the latest window (0 when
  that window has none). Once cycle \<open>N + 1\<close> has begun, and throughout its window, the
  query returns \<open>cycle = N + 1\<close> with the other three fields unchanged.
\<close>

theorem status_after_cycle:
  "let st = scheduler_after hs h k;
       W = window_samples (h k) st;
       H = cycle_data (scheduler_after hs h (Suc k));
       N = int (6 * length hs + Suc k);
       avg = (if W \<noteq> [] then np_mean W else 0);
       started = begin_cycle (scheduler_after hs h (Suc k))
   in length H = 6 * length hs + Suc k
      \<and> H = cycle_data st @ [window_record N W]
      \<and> get_data (scheduler_after hs h (Suc k))
          = Inr \<lparr>status_cycle = N, current_avg = avg,
                 latest_predicted = predicted_temp (H ! (6 * length hs + k)), history = H\<rparr>
      \<and> get_data started
          = Inr \<lparr>status_cycle = N + 1, current_avg = avg,
                 latest_predicted = predicted_temp (H ! (6 * length hs + k)), history = H\<rparr>
      \<and> get_data (snd (gather_data env started)) = get_data started"
proof -
  define st where "st = scheduler_after hs h k"
  define W where "W = window_samples (h k) st"
  define H where "H = cycle_data (scheduler_after hs h (Suc k))"
  define N where "N = int (6 * length hs + Suc k)"
  have len: "length H = 6 * length hs + Suc k"
    by (simp only: H_def length_scheduler_after)
  have count: "cycle_count (scheduler_after hs h (Suc k)) = N"
    by (simp only: N_def cycle_count_scheduler_after)
  have "cycle_count st + 1 = N"
    by (simp add: st_def N_def cycle_count_scheduler_after)
  then have app: "H = cycle_data st @ [window_record N W]"
    by (simp add: H_def scheduler_after_Suc one_cycle_globals st_def W_def)
  have "length (cycle_data st) = 6 * length hs + k"
    by (simp add: st_def length_scheduler_after)
  then have nth: "H ! (6 * length hs + k) = window_record N W"
    by (simp add: app nth_append)
  have samples: "sensor_data (scheduler_after hs h (Suc k)) = W"
    by (simp add: scheduler_after_Suc one_cycle_globals st_def W_def)
  have last: "last H = window_record N W"
    by (simp add: app)
  have nonempty: "H \<noteq> []"
    by (simp add: app)
  have q1: "get_data (scheduler_after hs h (Suc k))
      = Inr \<lparr>status_cycle = N, current_avg = (if W \<noteq> [] then np_mean W else 0),
             latest_predicted = predicted_temp (H ! (6 * length hs + k)), history = H\<rparr>"
    using nonempty by (simp add: get_data_def py_last_def H_def [symmetric] samples count last nth)
  have q2: "get_data (begin_cycle (scheduler_after hs h (Suc k)))
      = Inr \<lparr>status_cycle = N + 1, current_avg = (if W \<noteq> [] then np_mean W else 0),
             latest_predicted = predicted_temp (H ! (6 * length hs + k)), history = H\<rparr>"
    using nonempty
    by (simp add: get_data_def py_last_def begin_cycle_def H_def [symmetric] samples count last nth)
  show ?thesis
    unfolding Let_def st_def [symmetric] W_def [symmetric] H_def [symmetric] N_def [symmetric]
    using len app q1 q2 by (simp add: get_data_during_window)
qed

text \<open>
  Claim C10, as stated: with an empty sample buffer and an empty history the query
  returns \<open>cycle = 0\<close>. It fails as soon as the scheduler has begun its first cycle:
  buffer and history are still empty and the query returns \<open>cycle = 1\<close>.
\<close>

theorem status_first_cycle_counterexample:
  "sensor_data (begin_cycle initial_state) = [] \<and> cycle_data (begin_cycle initial_state) = []
   \<and> get_data (begin_cycle initial_state)
       = Inr \<lparr>status_cycle = 1, current_avg = 0, latest_predicted = 0, history = []\<rparr>"
  by (simp add: begin_cycle_def initial_state_def get_data_def)

text \<open>
  Claim C10, amended: with an empty sample buffer and an empty history the query does
  not fail; it returns \<open>current_avg = 0\<close>, \<open>latest_predicted = 0\<close>, an empty history, and
  as \<open>cycle\<close> the value of the cycle counter, which is 0 in the initial state and 1 from
  the start of the first cycle.
\<close>

theorem status_before_first_record:
  assumes "sensor_data st = []" and "cycle_data st = []"
  shows "get_data st
     = Inr \<lparr>status_cycle = cycle_count st, current_avg = 0, latest_predicted = 0, history = []\<rparr>"
  using assms by (simp add: get_data_def)

theorem status_before_first_record_witness:
  "sensor_data initial_state = [] \<and> cycle_data initial_state = []
   \<and> get_data initial_state
       = Inr \<lparr>status_cycle = 0, current_avg = 0, latest_predicted = 0, history = []\<rparr>"
proof -
  have a: "sensor_data initial_state = []" and b: "cycle_data initial_state = []"
    by (simp_all add: initial_state_def)
  show ?thesis
    using a b status_before_first_record [OF a b] by (simp add: initial_state_def)
qed

section \<open>The retention sweep\<close>

text \<open>
  Claim C9, as stated: a file checked by the sweep whose modification time is more than
  30 days in the past is deleted. It fails when \<open>os.remove\<close> raises: the exception is
  caught and the file, 31 days old, is still there.
\<close>

theorem cleanup_check_refused_counterexample:
  "cleanup_check (\<lambda>_. True) (31 * 86400) CSV_FILE [CSV_FILE \<mapsto> 0] CSV_FILE = Some 0"
  by (simp add: cleanup_check_def os_remove_def log_write_def CSV_FILE_def LOG_FILE_def)

text \<open>
  Claim C9, amended: for a file that exists when the sweep checks it, if its
  modification time is more than 30 days in the past the sweep calls \<open>os.remove\<close> on it,
  and the file is gone when the call succeeds and stays when the call raises; if its
  modification time is 30 days or less in the past the sweep changes nothing.
\<close>

theorem cleanup_check_retention:
  assumes "fs path = Some mtime"
  shows "(30 < (t - mtime) / 86400 \<and> \<not> remove_fails path
            \<longrightarrow> cleanup_check remove_fails t path fs path = None)
       \<and> (30 < (t - mtime) / 86400 \<and> remove_fails path
            \<longrightarrow> cleanup_check remove_fails t path fs path \<noteq> None)
       \<and> ((t - mtime) / 86400 \<le> 30 \<longrightarrow> cleanup_check remove_fails t path fs = fs)"
  using assms
  by (auto simp add: cleanup_check_def os_remove_def log_write_def Let_def split: option.splits)

theorem cleanup_check_retention_witness:
  "[CSV_FILE \<mapsto> (0::real)] CSV_FILE = Some 0
   \<and> (30::real) < (31 * 86400 - 0) / 86400
   \<and> cleanup_check (\<lambda>_. False) (31 * 86400) CSV_FILE [CSV_FILE \<mapsto> 0] CSV_FILE = None
   \<and> ((29 * 86400 - 0) / 86400 :: real) \<le> 30
   \<and> cleanup_check (\<lambda>_. False) (29 * 86400) CSV_FILE [CSV_FILE \<mapsto> 0] = [CSV_FILE \<mapsto> 0]"
  using cleanup_check_retention
      [where fs = "[CSV_FILE \<mapsto> 0]" and path = CSV_FILE and mtime = 0 and t = "31 * 86400"
         and remove_fails = "\<lambda>_. False"]
    cleanup_check_retention
      [where fs = "[CSV_FILE \<mapsto> 0]" and path = CSV_FILE and mtime = 0 and t = "29 * 86400"
         and remove_fails = "\<lambda>_. False"]
  by simp

text \<open>
  A whole pass over two files of 31 days: the CSV file is removed, the message about it
  renews the log file, and the log file stays.
\<close>

lemma cleanup_files_both_old:
  "cleanup_files (\<lambda>_. False) (31 * 86400) [CSV_FILE \<mapsto> 0, LOG_FILE \<mapsto> 0]
     = [LOG_FILE \<mapsto> 31 * 86400]"
  by (auto simp add: cleanup_files_def cleanup_check_def os_remove_def log_write_def
      CSV_FILE_def LOG_FILE_def)

end
